theory Spec2Isabelle
  imports Main
begin

section \<open>nox review: strings and errors\<close>

text \<open>
  The embedded program is \<^verbatim>\<open>src/nox/review.py\<close>. A Python \<^verbatim>\<open>str\<close> is modelled as a
  \<^typ>\<open>string\<close>; a \<^typ>\<open>char\<close> stands for a code point below 256, which covers every
  character the functions below inspect (the line feed and the white space that
  \<^verbatim>\<open>str.split()\<close> looks for). A Python \<^verbatim>\<open>set\<close> of strings is a \<^typ>\<open>string set\<close>.
\<close>

datatype error =
    IndexError
  | KeyError string
  | CalledProcessError int "string list"
  | OSError
  | RequestException

definition newline :: char where
  "newline = CHR 0x0A"

text \<open>
  \<^verbatim>\<open>str.isspace\<close> on the code points below 256: TAB, LF, VT, FF, CR, the separators
  FS, GS, RS and US, the space, NEL and the no-break space.
\<close>

definition is_space :: "char \<Rightarrow> bool" where
  "is_space c \<longleftrightarrow>
     c \<in> set [CHR 0x09, CHR 0x0A, CHR 0x0B, CHR 0x0C, CHR 0x0D,
              CHR 0x1C, CHR 0x1D, CHR 0x1E, CHR 0x1F, CHR 0x20, CHR 0x85, CHR 0xA0]"

text \<open>
  \<^verbatim>\<open>s.split(sep)\<close> with a one-character separator: the pieces between the occurrences
  of the separator, empty pieces kept, so the result has one more element than the
  string has separators. \<open>cur\<close> is the piece being read, reversed.
\<close>

fun split_sep :: "char \<Rightarrow> string \<Rightarrow> string \<Rightarrow> string list" where
  "split_sep sep cur [] = [rev cur]"
| "split_sep sep cur (c # cs) =
     (if c = sep then rev cur # split_sep sep [] cs else split_sep sep (c # cur) cs)"

definition split_on :: "char \<Rightarrow> string \<Rightarrow> string list" where
  "split_on sep s = split_sep sep [] s"

text \<open>
  \<^verbatim>\<open>s.split()\<close> without arguments: the maximal runs of characters that are not white
  space; leading, trailing and repeated white space yields no empty token. \<open>cur\<close> is the
  token being read, reversed.
\<close>

fun split_tokens :: "string \<Rightarrow> string \<Rightarrow> string list" where
  "split_tokens cur [] = (if cur = [] then [] else [rev cur])"
| "split_tokens cur (c # cs) =
     (if is_space c
      then (if cur = [] then split_tokens [] cs else rev cur # split_tokens [] cs)
      else split_tokens (c # cur) cs)"

definition split_ws :: "string \<Rightarrow> string list" where
  "split_ws s = split_tokens [] s"

text \<open>\<^verbatim>\<open>s.strip()\<close>: white space removed at both ends.\<close>

definition strip :: "string \<Rightarrow> string" where
  "strip s = rev (dropWhile is_space (rev (dropWhile is_space s)))"

section \<open>The differ\<close>

text \<open>
  \<^verbatim>\<open>
  def differences(old, new):
      raw = old ^ new
      return {l.split()[0] for l in raw}
  \<close>
  \<^verbatim>\<open>old ^ new\<close> is the symmetric difference. \<^verbatim>\<open>l.split()[0]\<close> raises IndexError on a
  line without a token, and the comprehension then raises instead of returning a set.
\<close>

definition sym_difference :: "'a set \<Rightarrow> 'a set \<Rightarrow> 'a set" where
  "sym_difference a b = (a - b) \<union> (b - a)"

definition differences :: "string set \<Rightarrow> string set \<Rightarrow> error + string set" where
  "differences old new =
     (let raw = sym_difference old new
      in if \<exists>l\<in>raw. split_ws l = [] then Inl IndexError
         else Inr ((\<lambda>l. hd (split_ws l)) ` raw))"

text \<open>The first token of a line, when it has one.\<close>

definition attr_name :: "string \<Rightarrow> string option" where
  "attr_name l = (case split_ws l of [] \<Rightarrow> None | t # _ \<Rightarrow> Some t)"

text \<open>The evaluator's line for an attribute and its derivation path.\<close>

definition entry :: "string \<Rightarrow> string \<Rightarrow> string" where
  "entry name path = name @ '' '' @ path"

text \<open>
  The name occurs exactly once in the set, as the entry for the given path: the lines
  of the set whose first token is the name are that entry and no other.
\<close>

definition occurs_once :: "string \<Rightarrow> string \<Rightarrow> string set \<Rightarrow> bool" where
  "occurs_once name path a \<longleftrightarrow> {l \<in> a. attr_name l = Some name} = {entry name path}"

section \<open>The world outside the program\<close>

text \<open>
  Everything else in the program is a sequence of calls to collaborators: subprocesses
  (git, nix-env, nix-build, ls), one HTTP request, the file system and the terminal.
  Their behaviour is a parameter of the model: an environment \<open>env\<close> of functions over
  an arbitrary world \<open>'w\<close>. The program's state is the world, the persistent cache and
  a trace, the list of the effects performed so far in the order they happened; the
  trace is not read by the program and only lets the theorems speak about which calls
  were made. A subprocess and the HTTP request can fail, and the failure is an error
  value of the step; the steps on the file system (existence tests, \<^verbatim>\<open>mkdir\<close>,
  \<^verbatim>\<open>mkdtemp\<close>, \<^verbatim>\<open>resolve\<close>, the working directory) are taken to succeed. The order in
  which Python iterates a set is the environment's \<open>set_order\<close>.
\<close>

text \<open>
  How \<^verbatim>\<open>subprocess\<close> found a child: it ran and exited with a status, its standard
  output being the text given, or it could not be started.
\<close>

datatype outcome = Exit int string | NotStarted

text \<open>The fields of the pull request's JSON object that the program reads.\<close>

record pr_payload =
  title :: "string option"
  head_sha :: "string option"
  base_sha :: "string option"

datatype event =
    Call "string list" "string option" outcome
  | Echo string
  | HttpGet string
  | Mkdir string
  | Mkdtemp string string

record 'w env =
  run_process :: "'w \<Rightarrow> string list \<Rightarrow> string option \<Rightarrow> outcome \<times> 'w"
  http_get :: "'w \<Rightarrow> string \<Rightarrow> pr_payload option \<times> 'w"
  path_exists :: "'w \<Rightarrow> string \<Rightarrow> bool"
  make_dir :: "'w \<Rightarrow> string \<Rightarrow> 'w"
  make_temp_dir :: "'w \<Rightarrow> string \<Rightarrow> string \<times> 'w"
  resolve_path :: "'w \<Rightarrow> string \<Rightarrow> string"
  current_dir :: "'w \<Rightarrow> string"
  app_dir :: string
  set_order :: "string set \<Rightarrow> string list"

record 'w state =
  world :: 'w
  trace :: "event list"
  cache :: "string \<rightharpoonup> string set"

type_synonym ('w, 'a) prog = "'w state \<Rightarrow> (error + 'a) \<times> 'w state"

definition ret :: "'a \<Rightarrow> ('w, 'a) prog" where
  "ret x s = (Inr x, s)"

definition raise :: "error \<Rightarrow> ('w, 'a) prog" where
  "raise e s = (Inl e, s)"

definition bind :: "('w, 'a) prog \<Rightarrow> ('a \<Rightarrow> ('w, 'b) prog) \<Rightarrow> ('w, 'b) prog" where
  "bind m k s = (case m s of (Inl e, s') \<Rightarrow> (Inl e, s') | (Inr x, s') \<Rightarrow> k x s')"

text \<open>\<^verbatim>\<open>try: m except ...: h\<close>; the handler re-raises what its clause does not match.\<close>

definition catch :: "('w, 'a) prog \<Rightarrow> (error \<Rightarrow> ('w, 'a) prog) \<Rightarrow> ('w, 'a) prog" where
  "catch m h s = (case m s of (Inl e, s') \<Rightarrow> h e s' | (Inr x, s') \<Rightarrow> (Inr x, s'))"

text \<open>
  \<^verbatim>\<open>try: m finally: f\<close>: \<open>f\<close> runs after \<open>m\<close> however \<open>m\<close> ended; an exception of \<open>f\<close>
  replaces the outcome of \<open>m\<close>.
\<close>

definition finally_do :: "('w, 'a) prog \<Rightarrow> ('w, unit) prog \<Rightarrow> ('w, 'a) prog" where
  "finally_do m f s =
     (case m s of (r, s') \<Rightarrow>
        (case f s' of (Inl e, s'') \<Rightarrow> (Inl e, s'') | (Inr _, s'') \<Rightarrow> (r, s'')))"

text \<open>
  A click command that returns ends the process with status 0; an exception that leaves
  it ends the interpreter with status 1.
\<close>

definition exit_status :: "error + 'a \<Rightarrow> int" where
  "exit_status r = (case r of Inl _ \<Rightarrow> 1 | Inr _ \<Rightarrow> 0)"

subsection \<open>The collaborators as steps of the program\<close>

text \<open>
  \<^verbatim>\<open>subprocess.check_call\<close> and \<^verbatim>\<open>subprocess.check_output\<close>: a status other than 0
  raises CalledProcessError.
\<close>

definition checked :: "string list \<Rightarrow> outcome \<Rightarrow> error + string" where
  "checked argv out =
     (case out of
        NotStarted \<Rightarrow> Inl OSError
      | Exit rc text \<Rightarrow> if rc = 0 then Inr text else Inl (CalledProcessError rc argv))"

definition check_output :: "'w env \<Rightarrow> string list \<Rightarrow> string option \<Rightarrow> ('w, string) prog" where
  "check_output env argv dir s =
     (case run_process env (world s) argv dir of
        (out, w') \<Rightarrow>
          (checked argv out, s\<lparr>world := w', trace := trace s @ [Call argv dir out]\<rparr>))"

definition check_call :: "'w env \<Rightarrow> string list \<Rightarrow> string option \<Rightarrow> ('w, unit) prog" where
  "check_call env argv dir = bind (check_output env argv dir) (\<lambda>_. ret ())"

text \<open>
  \<^verbatim>\<open>click.echo\<close>; \<^verbatim>\<open>click.style\<close> wraps the text in the terminal's escape sequences,
  and \<^verbatim>\<open>click.secho(m, fg='red')\<close> is \<^verbatim>\<open>click.echo(click.style(m, fg='red'))\<close>.
\<close>

definition echo :: "string \<Rightarrow> ('w, unit) prog" where
  "echo msg s = (Inr (), s\<lparr>trace := trace s @ [Echo msg]\<rparr>)"

definition style_bold :: "string \<Rightarrow> string" where
  "style_bold t = CHR 0x1B # ''[1m'' @ t @ CHR 0x1B # ''[0m''"

definition style_red :: "string \<Rightarrow> string" where
  "style_red t = CHR 0x1B # ''[31m'' @ t @ CHR 0x1B # ''[0m''"

definition path_exists_now :: "'w env \<Rightarrow> string \<Rightarrow> ('w, bool) prog" where
  "path_exists_now env p s = (Inr (path_exists env (world s) p), s)"

definition mkdir :: "'w env \<Rightarrow> string \<Rightarrow> ('w, unit) prog" where
  "mkdir env p s = (Inr (), s\<lparr>world := make_dir env (world s) p, trace := trace s @ [Mkdir p]\<rparr>)"

definition mkdtemp :: "'w env \<Rightarrow> string \<Rightarrow> ('w, string) prog" where
  "mkdtemp env pre s =
     (case make_temp_dir env (world s) pre of
        (d, w') \<Rightarrow> (Inr d, s\<lparr>world := w', trace := trace s @ [Mkdtemp pre d]\<rparr>))"

definition resolve :: "'w env \<Rightarrow> string \<Rightarrow> ('w, string) prog" where
  "resolve env p s = (Inr (resolve_path env (world s) p), s)"

definition getcwd :: "'w env \<Rightarrow> ('w, string) prog" where
  "getcwd env s = (Inr (current_dir env (world s)), s)"

text \<open>\<^verbatim>\<open>requests.get(url).json()\<close>; no answer, or one that is no JSON, raises.\<close>

definition get_json :: "'w env \<Rightarrow> string \<Rightarrow> ('w, pr_payload) prog" where
  "get_json env url s =
     (case http_get env (world s) url of
        (r, w') \<Rightarrow>
          ((case r of None \<Rightarrow> Inl RequestException | Some p \<Rightarrow> Inr p),
           s\<lparr>world := w', trace := trace s @ [HttpGet url]\<rparr>))"

text \<open>\<^verbatim>\<open>d[key]\<close> on the payload: a missing key raises KeyError.\<close>

definition item :: "string \<Rightarrow> string option \<Rightarrow> ('w, string) prog" where
  "item key v = (case v of None \<Rightarrow> raise (KeyError key) | Some x \<Rightarrow> ret x)"

text \<open>\<^verbatim>\<open>' '.join(xs)\<close> and \<^verbatim>\<open>str(n)\<close> for an integer.\<close>

fun join_space :: "string list \<Rightarrow> string" where
  "join_space [] = []"
| "join_space [x] = x"
| "join_space (x # y # ys) = x @ '' '' @ join_space (y # ys)"

fun str_nat :: "nat \<Rightarrow> string" where
  "str_nat n =
     (if n < 10 then [''0123456789'' ! n] else str_nat (n div 10) @ [''0123456789'' ! (n mod 10)])"

definition str_int :: "int \<Rightarrow> string" where
  "str_int i = (if i < 0 then CHR ''-'' # str_nat (nat (- i)) else str_nat (nat i))"

declare str_nat.simps [simp del]

section \<open>The program\<close>

text \<open>
  \<^verbatim>\<open>packages(path)\<close>: the evaluator's output, split at every line feed, as a set.
\<close>

definition packages :: "'w env \<Rightarrow> string \<Rightarrow> ('w, string set) prog" where
  "packages env path =
     bind (check_output env [''nix-env'', ''-f'', path, ''-qaP'', ''--drv-path''] None)
       (\<lambda>output. ret (set (split_on newline output)))"

subsection \<open>The mirror\<close>

text \<open>
  \<^verbatim>\<open>get_nixpkgs()\<close>, in the three parts of its body. Lines 65 to 74: the directories and
  the empty clone with its upstream remote.
\<close>

definition nixpkgs_dir :: "'w env \<Rightarrow> string" where
  "nixpkgs_dir env = app_dir env @ ''/nixpkgs''"

definition init_nixpkgs :: "'w env \<Rightarrow> ('w, string) prog" where
  "init_nixpkgs env =
     bind (path_exists_now env (app_dir env)) (\<lambda>there.
     bind (if \<not> there then mkdir env (app_dir env) else ret ()) (\<lambda>_.
     bind (path_exists_now env (nixpkgs_dir env)) (\<lambda>cloned.
     bind (if \<not> cloned
           then bind (echo ''Cloning nixpkgs'') (\<lambda>_.
                bind (check_call env [''git'', ''init'', nixpkgs_dir env] None) (\<lambda>_.
                check_call env
                  [''git'', ''remote'', ''add'', ''origin'', ''https://github.com/NixOS/nixpkgs.git'']
                  (Some (nixpkgs_dir env))))
           else ret ()) (\<lambda>_.
     ret (nixpkgs_dir env)))))"

text \<open>
  Lines 78 to 84: the temporary remote.
  \<^verbatim>\<open>
  try:
      subprocess.check_call(['git', 'remote', 'add', 'local', '-f', str(Path.cwd())], cwd=str(nixpkgs))
  except:
      pass
  finally:
      subprocess.check_call(['git', 'remote', 'remove', 'local'], cwd=str(nixpkgs))
  \<close>
\<close>

definition add_local :: "string \<Rightarrow> string list" where
  "add_local dir = [''git'', ''remote'', ''add'', ''local'', ''-f'', dir]"

definition remove_local :: "string list" where
  "remove_local = [''git'', ''remote'', ''remove'', ''local'']"

definition fetch_local :: "'w env \<Rightarrow> string \<Rightarrow> ('w, unit) prog" where
  "fetch_local env nixpkgs =
     finally_do
       (catch (bind (getcwd env) (\<lambda>dir. check_call env (add_local dir) (Some nixpkgs)))
              (\<lambda>e. ret ()))
       (check_call env remove_local (Some nixpkgs))"

text \<open>Lines 86 to 92: the upstream branch and the pull requests' heads.\<close>

definition fetch_origin :: "'w env \<Rightarrow> string \<Rightarrow> ('w, string) prog" where
  "fetch_origin env nixpkgs =
     bind (check_call env [''git'', ''fetch'', ''origin'', ''master''] (Some nixpkgs)) (\<lambda>_.
     bind (check_call env
             [''git'', ''fetch'', ''origin'', ''+refs/pull/*/head:refs/remotes/origin/pr/*'']
             (Some nixpkgs)) (\<lambda>_.
     ret nixpkgs))"

definition get_nixpkgs :: "'w env \<Rightarrow> ('w, string) prog" where
  "get_nixpkgs env =
     bind (init_nixpkgs env) (\<lambda>nixpkgs.
     bind (getcwd env) (\<lambda>dir.
     bind (path_exists_now env (dir @ ''/.git'')) (\<lambda>in_repo.
     bind (if in_repo then fetch_local env nixpkgs else ret ()) (\<lambda>_.
     fetch_origin env nixpkgs))))"

subsection \<open>The cached lister\<close>

text \<open>
  Modelled from the spec: the module \<^verbatim>\<open>nox/cache.py\<close>, whose \<^verbatim>\<open>region\<close> decorates
  \<^verbatim>\<open>packages_for_sha\<close>, is not among the sources. The spec: the result "is cached keyed
  by the identifier; subsequent calls with the same identifier (in this or a future run)
  return the cached set without checking out or evaluating again", the entry is "created
  on first lookup for a given identifier; never invalidated automatically", and the
  operation is "compute if absent". A call that raises stores nothing.
\<close>

definition cache_on_arguments ::
  "(string \<Rightarrow> ('w, string set) prog) \<Rightarrow> string \<Rightarrow> ('w, string set) prog" where
  "cache_on_arguments f key s =
     (case cache s key of
        Some v \<Rightarrow> (Inr v, s)
      | None \<Rightarrow>
          (case f key s of
             (Inl e, s') \<Rightarrow> (Inl e, s')
           | (Inr v, s') \<Rightarrow> (Inr v, s'\<lparr>cache := (cache s')(key \<mapsto> v)\<rparr>)))"

definition checkout :: "string \<Rightarrow> string list" where
  "checkout sha = [''git'', ''checkout'', sha]"

definition packages_for_sha :: "'w env \<Rightarrow> string \<Rightarrow> ('w, string set) prog" where
  "packages_for_sha env =
     cache_on_arguments (\<lambda>sha.
       bind (get_nixpkgs env) (\<lambda>nixpkgs.
       bind (check_call env (checkout sha) (Some nixpkgs)) (\<lambda>_.
       packages env nixpkgs)))"

subsection \<open>The builder\<close>

text \<open>
  \<^verbatim>\<open>build_in_path(attrs, path)\<close>. The attributes are a list here: the commands hand over
  a set, which the function iterates in the order the environment's \<open>set_order\<close> gives
  it. The command is \<^verbatim>\<open>nix-build -A a1 -A a2 ... path\<close>.
\<close>

definition build_command :: "string list \<Rightarrow> string \<Rightarrow> string list" where
  "build_command attrs canonical_path =
     [''nix-build''] @ concat (map (\<lambda>a. [''-A'', a]) attrs) @ [canonical_path]"

definition list_command :: "string \<Rightarrow> string list" where
  "list_command result_dir = [''ls'', ''-l'', result_dir]"

definition failed_message :: "string list \<Rightarrow> string" where
  "failed_message command =
     style_red (''The invocation of \"'' @ join_space command @ ''\" failed'')"

definition build_in_path :: "'w env \<Rightarrow> string list \<Rightarrow> string \<Rightarrow> ('w, unit) prog" where
  "build_in_path env attrs path =
     (if attrs = [] then echo ''Nothing changed''
      else
        bind (resolve env path) (\<lambda>canonical_path.
        bind (mkdtemp env ''nox-review-'') (\<lambda>result_dir.
        bind (echo (''Building in '' @ style_bold result_dir @ '': ''
                    @ style_bold (join_space attrs))) (\<lambda>_.
        bind (catch (check_call env (build_command attrs canonical_path) (Some result_dir))
                (\<lambda>e. case e of
                        CalledProcessError rc argv \<Rightarrow>
                          echo (failed_message (build_command attrs canonical_path))
                      | _ \<Rightarrow> raise e)) (\<lambda>_.
        bind (echo (''Result in '' @ style_bold result_dir)) (\<lambda>_.
        check_call env (list_command result_dir) None))))))"

definition build_sha :: "'w env \<Rightarrow> string list \<Rightarrow> string \<Rightarrow> ('w, unit) prog" where
  "build_sha env attrs sha =
     bind (get_nixpkgs env) (\<lambda>nixpkgs.
     bind (check_call env (checkout sha) (Some nixpkgs)) (\<lambda>_.
     build_in_path env attrs nixpkgs))"

subsection \<open>The review of a pull request\<close>

definition pr_url :: "int \<Rightarrow> string" where
  "pr_url pr = ''https://api.github.com/repos/NixOS/nixpkgs/pulls/'' @ str_int pr"

definition merge_base :: "string \<Rightarrow> string \<Rightarrow> string list" where
  "merge_base head base = [''git'', ''merge-base'', head, base]"

definition lift :: "error + 'a \<Rightarrow> ('w, 'a) prog" where
  "lift r s = (r, s)"

text \<open>
  \<^verbatim>\<open>review_pr(pr)\<close>. The arguments of \<^verbatim>\<open>differences\<close> are evaluated from left to
  right: the head's set first, then the root's.
\<close>

definition review_pr :: "'w env \<Rightarrow> int \<Rightarrow> ('w, unit) prog" where
  "review_pr env pr =
     bind (get_json env (pr_url pr)) (\<lambda>payload.
     bind (item ''title'' (title payload)) (\<lambda>ttl.
     bind (echo (''Reviewing PR '' @ style_bold (str_int pr) @ '' : '' @ style_bold ttl)) (\<lambda>_.
     bind (item ''head'' (head_sha payload)) (\<lambda>head.
     bind (item ''base'' (base_sha payload)) (\<lambda>base.
     bind (get_nixpkgs env) (\<lambda>nixpkgs.
     bind (check_output env (merge_base head base) (Some nixpkgs)) (\<lambda>output.
     bind (packages_for_sha env head) (\<lambda>of_head.
     bind (packages_for_sha env (strip output)) (\<lambda>of_root.
     bind (lift (differences of_head of_root)) (\<lambda>attrs.
     build_sha env (set_order env attrs) head))))))))))"

section \<open>A small world to run the program in\<close>

text \<open>
  A concrete environment for running the model. Its world is the revision checked out
  in the mirror. Every path exists, so the mirror is there and the working directory
  is a repository. \<open>rc\<close> gives each command's exit status; a checkout that succeeds
  changes the world. The evaluator prints three attributes at the head \<open>H\<close> of the pull
  request, two at the merge base \<open>M\<close> and another two at the base \<open>B\<close>.
\<close>

definition unlines :: "string list \<Rightarrow> string" where
  "unlines ls = concat (map (\<lambda>l. l @ [newline]) ls)"

definition demo_packages :: "string \<Rightarrow> string" where
  "demo_packages sha =
     unlines (if sha = ''H'' then [''foo /nix/a'', ''bar /nix/c'', ''baz /nix/d'']
              else if sha = ''M'' then [''foo /nix/a'', ''bar /nix/b'']
              else [''foo /nix/z'', ''bar /nix/c''])"

definition demo_run ::
  "(string list \<Rightarrow> int) \<Rightarrow> string \<Rightarrow> string list \<Rightarrow> string option \<Rightarrow> outcome \<times> string" where
  "demo_run rc w argv dir =
     (if rc argv \<noteq> 0 then (Exit (rc argv) [], w)
      else if take 2 argv = [''git'', ''checkout''] then (Exit 0 [], argv ! 2)
      else if take 2 argv = [''git'', ''merge-base''] then (Exit 0 (unlines [''M'']), w)
      else if take 1 argv = [''nix-env''] then (Exit 0 (demo_packages w), w)
      else (Exit 0 [], w))"

definition demo_payload :: pr_payload where
  "demo_payload = \<lparr>title = Some ''bar: 1.0 -> 1.1'', head_sha = Some ''H'', base_sha = Some ''B''\<rparr>"

definition demo_order :: "string set \<Rightarrow> string list" where
  "demo_order names = filter (\<lambda>n. n \<in> names) [''bar'', ''baz'', ''foo'']"

definition demo_env :: "(string list \<Rightarrow> int) \<Rightarrow> string env" where
  "demo_env rc =
     \<lparr>run_process = demo_run rc,
      http_get = (\<lambda>w url. (Some demo_payload, w)),
      path_exists = (\<lambda>w p. True),
      make_dir = (\<lambda>w p. w),
      make_temp_dir = (\<lambda>w pre. (''/tmp/'' @ pre @ ''1'', w)),
      resolve_path = (\<lambda>w p. p),
      current_dir = (\<lambda>w. ''/src/nixpkgs''),
      app_dir = ''/home/u/.nox'',
      set_order = demo_order\<rparr>"

definition demo_state :: "string \<Rightarrow> string state" where
  "demo_state sha = \<lparr>world = sha, trace = [], cache = Map.empty\<rparr>"

text \<open>Exit statuses: every command succeeds; the build fails; git's remote commands fail;
  only the addition of the temporary remote fails.\<close>

definition all_succeed :: "string list \<Rightarrow> int" where
  "all_succeed argv = 0"

definition build_fails :: "string list \<Rightarrow> int" where
  "build_fails argv = (if take 1 argv = [''nix-build''] then 1 else 0)"

definition remote_fails :: "string list \<Rightarrow> int" where
  "remote_fails argv = (if take 2 argv = [''git'', ''remote''] then 2 else 0)"

definition add_fails :: "string list \<Rightarrow> int" where
  "add_fails argv = (if take 3 argv = [''git'', ''remote'', ''add''] then 128 else 0)"

section \<open>Properties of the differ\<close>

lemma split_tokens_no_space:
  "\<forall>c\<in>set xs. \<not> is_space c \<Longrightarrow> split_tokens cur (xs @ ys) = split_tokens (rev xs @ cur) ys"
  by (induction xs arbitrary: cur) simp_all

text \<open>
  C1: for A = {"foo /nix/a", "bar /nix/b"} and B = {"foo /nix/a", "bar /nix/c",
  "baz /nix/d"}, differences(A, B) returns exactly {"bar", "baz"}.
\<close>

theorem differences_scenario:
  "differences {''foo /nix/a'', ''bar /nix/b''}
               {''foo /nix/a'', ''bar /nix/c'', ''baz /nix/d''}
   = Inr {''bar'', ''baz''}"
  by (auto simp add: differences_def sym_difference_def split_ws_def is_space_def)

lemma differences_Inr_iff:
  "differences a b = Inr s \<longleftrightarrow>
     (\<forall>l\<in>sym_difference a b. split_ws l \<noteq> []) \<and>
     s = (\<lambda>l. hd (split_ws l)) ` sym_difference a b"
  by (auto simp: differences_def Let_def)

lemma attr_name_hd: "attr_name l = Some n \<longleftrightarrow> split_ws l \<noteq> [] \<and> hd (split_ws l) = n"
  by (cases "split_ws l") (simp_all add: attr_name_def)

lemma entry_inject: "entry n p = entry n q \<longleftrightarrow> p = q"
  by (simp add: entry_def)

lemma attr_name_entry:
  "name \<noteq> [] \<Longrightarrow> \<forall>c\<in>set name. \<not> is_space c \<Longrightarrow> attr_name (entry name path) = Some name"
  by (simp add: attr_name_def entry_def split_ws_def split_tokens_no_space is_space_def)

text \<open>
  C7, as amended: let a name occur exactly once in A, as the entry "name p1", and exactly
  once in B, as the entry "name p2". If p1 and p2 differ and differences(A, B) returns
  a set, which it does when every line of the symmetric difference has a token, then the
  name is a member of that set. If p1 = p2, differences(A, B) returns no set that has
  the name as a member.
\<close>

theorem differences_changed_path:
  assumes a: "occurs_once name p1 a" and b: "occurs_once name p2 b"
  shows "(p1 \<noteq> p2 \<longrightarrow> (\<forall>l\<in>sym_difference a b. split_ws l \<noteq> []) \<longrightarrow>
            (\<exists>s. differences a b = Inr s \<and> name \<in> s)) \<and>
         (p1 = p2 \<longrightarrow> \<not> (\<exists>s. differences a b = Inr s \<and> name \<in> s))"
proof (intro conjI impI)
  have a_only: "\<And>l. l \<in> a \<and> attr_name l = Some name \<longleftrightarrow> l = entry name p1"
    using a by (auto simp: occurs_once_def)
  have b_only: "\<And>l. l \<in> b \<and> attr_name l = Some name \<longleftrightarrow> l = entry name p2"
    using b by (auto simp: occurs_once_def)
  have e1: "attr_name (entry name p1) = Some name"
    using a_only by blast
  {
    assume ne: "p1 \<noteq> p2" and tok: "\<forall>l\<in>sym_difference a b. split_ws l \<noteq> []"
    have "entry name p1 \<in> a" using a_only by blast
    moreover have "entry name p1 \<notin> b"
      using b_only [of "entry name p1"] e1 ne by (simp add: entry_inject)
    ultimately have mem: "entry name p1 \<in> sym_difference a b"
      by (simp add: sym_difference_def)
    have "hd (split_ws (entry name p1)) = name"
      using e1 by (simp add: attr_name_hd)
    with mem have "name \<in> (\<lambda>l. hd (split_ws l)) ` sym_difference a b"
      by (metis imageI)
    with tok show "\<exists>s. differences a b = Inr s \<and> name \<in> s"
      by (simp add: differences_Inr_iff)
  }
  {
    assume eq: "p1 = p2"
    show "\<not> (\<exists>s. differences a b = Inr s \<and> name \<in> s)"
    proof
      assume "\<exists>s. differences a b = Inr s \<and> name \<in> s"
      then obtain l where l: "l \<in> sym_difference a b" "split_ws l \<noteq> []" "hd (split_ws l) = name"
        by (auto simp: differences_Inr_iff)
      then have n: "attr_name l = Some name" by (simp add: attr_name_hd)
      from l(1) have "(l \<in> a \<and> l \<notin> b) \<or> (l \<in> b \<and> l \<notin> a)"
        by (auto simp: sym_difference_def)
      then show False
        using a_only [of l] b_only [of l] n eq by blast
    qed
  }
qed

theorem differences_changed_path_witness:
  "occurs_once ''bar'' ''/nix/b'' {''foo /nix/a'', ''bar /nix/b''} \<and>
   occurs_once ''bar'' ''/nix/c'' {''foo /nix/a'', ''bar /nix/c'', ''baz /nix/d''} \<and>
   (\<exists>s. differences {''foo /nix/a'', ''bar /nix/b''}
                      {''foo /nix/a'', ''bar /nix/c'', ''baz /nix/d''} = Inr s \<and> ''bar'' \<in> s) \<and>
   occurs_once ''foo'' ''/nix/a'' {''foo /nix/a'', ''bar /nix/b''} \<and>
   occurs_once ''foo'' ''/nix/a'' {''foo /nix/a'', ''bar /nix/c'', ''baz /nix/d''} \<and>
   \<not> (\<exists>s. differences {''foo /nix/a'', ''bar /nix/b''}
                      {''foo /nix/a'', ''bar /nix/c'', ''baz /nix/d''} = Inr s \<and> ''foo'' \<in> s)"
proof -
  let ?a = "{''foo /nix/a'', ''bar /nix/b''}"
  let ?b = "{''foo /nix/a'', ''bar /nix/c'', ''baz /nix/d''}"
  have bar_a: "occurs_once ''bar'' ''/nix/b'' ?a"
    by (auto simp: occurs_once_def attr_name_def entry_def split_ws_def is_space_def)
  have bar_b: "occurs_once ''bar'' ''/nix/c'' ?b"
    by (auto simp: occurs_once_def attr_name_def entry_def split_ws_def is_space_def)
  have foo_a: "occurs_once ''foo'' ''/nix/a'' ?a"
    by (auto simp: occurs_once_def attr_name_def entry_def split_ws_def is_space_def)
  have foo_b: "occurs_once ''foo'' ''/nix/a'' ?b"
    by (auto simp: occurs_once_def attr_name_def entry_def split_ws_def is_space_def)
  have tok: "\<forall>l\<in>sym_difference ?a ?b. split_ws l \<noteq> []"
    by (auto simp: sym_difference_def split_ws_def is_space_def)
  show ?thesis
    using differences_changed_path [OF bar_a bar_b] differences_changed_path [OF foo_a foo_b]
      bar_a bar_b foo_a foo_b tok
    by simp
qed

text \<open>
  C7 as it is written fails: in A = {"foo /nix/a", ""} and B = {"foo /nix/b"} the name
  foo occurs exactly once each, with different paths, and differences(A, B) raises
  IndexError on the empty line instead of returning a set with foo in it.
\<close>

theorem differences_changed_path_counterexample:
  "occurs_once ''foo'' ''/nix/a'' {''foo /nix/a'', ''''} \<and>
   occurs_once ''foo'' ''/nix/b'' {''foo /nix/b''} \<and>
   ''/nix/a'' \<noteq> ''/nix/b'' \<and>
   differences {''foo /nix/a'', ''''} {''foo /nix/b''} = Inl IndexError"
  by (auto simp: occurs_once_def attr_name_def entry_def split_ws_def is_space_def
      differences_def sym_difference_def)

text \<open>
  C8: differences(A, B) equals differences(B, A) for all A and B; where one raises, so
  does the other.
\<close>

theorem differences_symmetric: "differences a b = differences b a"
  by (simp add: differences_def sym_difference_def Un_commute)

text \<open>
  C10: differences is partial. It raises IndexError exactly when the symmetric
  difference of its arguments has a line without a token, and returns a set exactly
  when every line of the symmetric difference has a token; the empty string in one of
  the two sets only is such an input.
\<close>

theorem differences_partial:
  "(differences a b = Inl IndexError \<longleftrightarrow> (\<exists>l\<in>sym_difference a b. split_ws l = [])) \<and>
   ((\<exists>s. differences a b = Inr s) \<longleftrightarrow> (\<forall>l\<in>sym_difference a b. split_ws l \<noteq> [])) \<and>
   differences {''''} {} = Inl IndexError"
  by (auto simp: differences_def Let_def sym_difference_def split_ws_def)

theorem differences_partial_witness:
  "differences {''foo /nix/a'', ''''} {''foo /nix/a''} = Inl IndexError \<and>
   (\<exists>s. differences {''foo /nix/a'', ''''} {''''} = Inr s)"
proof -
  have bad: "\<exists>l\<in>sym_difference {''foo /nix/a'', ''''} {''foo /nix/a''}. split_ws l = []"
    by (auto simp: sym_difference_def split_ws_def)
  have good: "\<forall>l\<in>sym_difference {''foo /nix/a'', ''''} {''''}. split_ws l \<noteq> []"
    by (auto simp: sym_difference_def split_ws_def is_space_def)
  show ?thesis
    using differences_partial [of "{''foo /nix/a'', ''''}" "{''foo /nix/a''}"]
      differences_partial [of "{''foo /nix/a'', ''''}" "{''''}"] bad good
    by simp
qed

section \<open>Reasoning about the steps\<close>

lemmas prog_defs = bind_def ret_def raise_def catch_def finally_do_def check_call_def
  check_output_def checked_def echo_def path_exists_now_def mkdir_def mkdtemp_def
  resolve_def getcwd_def get_json_def item_def lift_def

lemmas program_defs = get_nixpkgs_def init_nixpkgs_def fetch_local_def fetch_origin_def
  nixpkgs_dir_def add_local_def remove_local_def packages_def packages_for_sha_def
  cache_on_arguments_def checkout_def build_command_def list_command_def failed_message_def
  build_in_path_def build_sha_def pr_url_def merge_base_def review_pr_def

lemmas demo_defs = demo_env_def demo_run_def demo_state_def demo_packages_def unlines_def
  demo_payload_def demo_order_def all_succeed_def build_fails_def remote_fails_def add_fails_def
  newline_def

text \<open>What a step that returned has done.\<close>

lemma bind_Inr:
  "bind m k s = (Inr y, s') \<longleftrightarrow> (\<exists>x s1. m s = (Inr x, s1) \<and> k x s1 = (Inr y, s'))"
  by (auto simp: bind_def split: prod.splits sum.splits)

lemma ret_Inr: "ret v s = (Inr x, s') \<longleftrightarrow> v = x \<and> s' = s"
  by (auto simp: ret_def)

lemma item_Inr: "item key v s = (Inr x, s') \<longleftrightarrow> v = Some x \<and> s' = s"
  by (auto simp: item_def raise_def ret_def split: option.splits)

lemma lift_Inr: "lift r s = (Inr x, s') \<longleftrightarrow> r = Inr x \<and> s' = s"
  by (auto simp: lift_def)

lemma check_output_Inr:
  "check_output env argv dir s = (Inr out, s') \<longleftrightarrow>
     (\<exists>w'. run_process env (world s) argv dir = (Exit 0 out, w') \<and>
        s' = s\<lparr>world := w', trace := trace s @ [Call argv dir (Exit 0 out)]\<rparr>)"
  by (auto simp: check_output_def checked_def split: prod.splits sum.splits outcome.splits if_splits)

lemma check_call_Inr:
  "check_call env argv dir s = (Inr u, s') \<longleftrightarrow>
     (\<exists>out w'. run_process env (world s) argv dir = (Exit 0 out, w') \<and>
        s' = s\<lparr>world := w', trace := trace s @ [Call argv dir (Exit 0 out)]\<rparr>)"
  by (auto simp: check_call_def check_output_def checked_def bind_def ret_def
      split: prod.splits sum.splits outcome.splits if_splits)

lemma get_json_Inr:
  "get_json env url s = (Inr p, s') \<longleftrightarrow>
     (\<exists>w'. http_get env (world s) url = (Some p, w') \<and>
        s' = s\<lparr>world := w', trace := trace s @ [HttpGet url]\<rparr>)"
  by (auto simp: get_json_def split: prod.splits option.splits)

lemma fetch_origin_Inr: "fetch_origin env n s = (Inr x, s') \<Longrightarrow> x = n"
  by (auto simp: fetch_origin_def bind_Inr ret_Inr)

lemma get_nixpkgs_Inr: "get_nixpkgs env s = (Inr n, s') \<Longrightarrow> n = nixpkgs_dir env"
  by (auto simp: get_nixpkgs_def init_nixpkgs_def bind_Inr ret_Inr dest!: fetch_origin_Inr)

text \<open>Only the cached lister writes the cache.\<close>

lemma cache_bind:
  "(\<And>s. cache (snd (m s)) = cache s) \<Longrightarrow> (\<And>x s. cache (snd (k x s)) = cache s) \<Longrightarrow>
   cache (snd (bind m k s)) = cache s"
  by (simp add: bind_def split: prod.splits sum.splits) (metis snd_conv)

lemma cache_catch:
  "(\<And>s. cache (snd (m s)) = cache s) \<Longrightarrow> (\<And>e s. cache (snd (h e s)) = cache s) \<Longrightarrow>
   cache (snd (catch m h s)) = cache s"
  by (simp add: catch_def split: prod.splits sum.splits) (metis snd_conv)

lemma cache_finally_do:
  "(\<And>s. cache (snd (m s)) = cache s) \<Longrightarrow> (\<And>s. cache (snd (f s)) = cache s) \<Longrightarrow>
   cache (snd (finally_do m f s)) = cache s"
  by (simp add: finally_do_def split: prod.splits sum.splits) (metis snd_conv)

lemma cache_check_output: "cache (snd (check_output env argv dir s)) = cache s"
  by (simp add: check_output_def split: prod.splits)

lemma cache_check_call: "cache (snd (check_call env argv dir s)) = cache s"
  by (simp add: check_call_def cache_bind cache_check_output ret_def)

lemma cache_steps:
  "cache (snd (ret x s)) = cache s"
  "cache (snd (raise e s)) = cache s"
  "cache (snd (echo msg s)) = cache s"
  "cache (snd (path_exists_now env p s)) = cache s"
  "cache (snd (mkdir env p s)) = cache s"
  "cache (snd (mkdtemp env pre s)) = cache s"
  "cache (snd (resolve env p s)) = cache s"
  "cache (snd (getcwd env s)) = cache s"
  by (simp_all add: ret_def raise_def echo_def path_exists_now_def mkdir_def mkdtemp_def
      resolve_def getcwd_def split: prod.splits)

lemma cache_fetch_local: "cache (snd (fetch_local env n s)) = cache s"
  by (simp add: fetch_local_def cache_finally_do cache_catch cache_bind cache_check_call
      cache_steps)

lemma cache_fetch_origin: "cache (snd (fetch_origin env n s)) = cache s"
  by (simp add: fetch_origin_def cache_bind cache_check_call cache_steps)

lemma cache_init_nixpkgs: "cache (snd (init_nixpkgs env s)) = cache s"
  by (simp add: init_nixpkgs_def cache_bind cache_check_call cache_steps)

lemma cache_get_nixpkgs: "cache (snd (get_nixpkgs env s)) = cache s"
  by (simp add: get_nixpkgs_def cache_bind cache_init_nixpkgs cache_fetch_local
      cache_fetch_origin cache_steps)

lemma cache_packages: "cache (snd (packages env path s)) = cache s"
  by (simp add: packages_def cache_bind cache_check_output cache_steps)

lemma cache_build_in_path: "cache (snd (build_in_path env attrs path s)) = cache s"
  by (simp add: build_in_path_def cache_bind cache_catch cache_check_call cache_steps
      split: error.splits)

lemma cache_build_sha: "cache (snd (build_sha env attrs sha s)) = cache s"
  by (simp add: build_sha_def cache_bind cache_get_nixpkgs cache_check_call cache_build_in_path)

lemma cache_packages_for_sha:
  "cache s sha = Some pkgs \<Longrightarrow> cache (snd (packages_for_sha env sha' s)) sha = Some pkgs"
proof (cases "cache s sha'")
  case (Some v)
  assume "cache s sha = Some pkgs"
  with Some show ?thesis
    by (simp add: packages_for_sha_def cache_on_arguments_def)
next
  case None
  assume hit: "cache s sha = Some pkgs"
  let ?body = "bind (get_nixpkgs env) (\<lambda>nixpkgs.
       bind (check_call env (checkout sha') (Some nixpkgs)) (\<lambda>_. packages env nixpkgs))"
  have kept: "cache (snd (?body s)) = cache s"
    by (simp add: cache_bind cache_get_nixpkgs cache_check_call cache_packages)
  from None hit have "sha \<noteq> sha'" by auto
  with None hit kept show ?thesis
    by (auto simp: packages_for_sha_def cache_on_arguments_def split: prod.splits sum.splits)
qed

lemma packages_for_sha_hit:
  "cache s sha = Some pkgs \<Longrightarrow> packages_for_sha env sha s = (Inr pkgs, s)"
  by (simp add: packages_for_sha_def cache_on_arguments_def)

lemma packages_for_sha_stores:
  "packages_for_sha env sha s = (Inr pkgs, s1) \<Longrightarrow> cache s1 sha = Some pkgs"
  by (auto simp: packages_for_sha_def cache_on_arguments_def
      split: option.splits prod.splits sum.splits)

section \<open>The attribute lister\<close>

lemma split_sep_trailing: "[] \<in> set (split_sep sep cur (s @ [sep]))"
  by (induction s arbitrary: cur) auto

text \<open>
  C3 says that for an output whose lines end with a line feed the parser returns no
  empty-string element. The code does not drop the piece after the last line feed:
  whenever the evaluator exits with status 0 and its output ends with a line feed,
  the set that \<^verbatim>\<open>packages\<close> returns has the empty string as an element.
\<close>

theorem packages_keeps_empty_line:
  assumes "run_process env (world s) [''nix-env'', ''-f'', path, ''-qaP'', ''--drv-path''] None
             = (Exit 0 (out @ [newline]), w')"
  shows "\<exists>entries s'. packages env path s = (Inr entries, s') \<and> '''' \<in> entries"
  using assms
  by (simp add: packages_def bind_def check_output_def checked_def ret_def split_on_def
      split_sep_trailing)

theorem packages_keeps_empty_line_witness:
  "fst (packages (demo_env all_succeed) ''.'' (demo_state ''M'')) =
     Inr {''foo /nix/a'', ''bar /nix/b'', ''''} \<and>
   (\<exists>entries s'. packages (demo_env all_succeed) ''.'' (demo_state ''M'') = (Inr entries, s') \<and>
      '''' \<in> entries)"
proof -
  have out: "run_process (demo_env all_succeed) (world (demo_state ''M''))
               [''nix-env'', ''-f'', ''.'', ''-qaP'', ''--drv-path''] None
             = (Exit 0 ((''foo /nix/a'' @ [newline] @ ''bar /nix/b'') @ [newline]), ''M'')"
    by (simp add: demo_defs)
  have run: "fst (packages (demo_env all_succeed) ''.'' (demo_state ''M'')) =
     Inr {''foo /nix/a'', ''bar /nix/b'', ''''}"
    by (simp add: packages_def split_on_def prog_defs demo_defs)
  show ?thesis
    using packages_keeps_empty_line [OF out] run by simp
qed

text \<open>
  C6: when a cached lookup of an identifier has returned a set, a repeated lookup of the
  same identifier returns that set and leaves the state as it is: nothing is added to
  the trace, so neither the checkout nor the evaluator runs again. The same holds after
  a lookup of any other identifier and after a build in between. The first lookup of an
  identifier that is not in the cache ends with the checkout and the evaluation.
\<close>

theorem packages_for_sha_cached:
  assumes "packages_for_sha env sha s = (Inr pkgs, s1)"
  shows "packages_for_sha env sha s1 = (Inr pkgs, s1) \<and>
         (cache s sha = None \<longrightarrow>
            (\<exists>pre t out. trace s1 = pre @
               [Call (checkout sha) (Some (nixpkgs_dir env)) (Exit 0 t),
                Call [''nix-env'', ''-f'', nixpkgs_dir env, ''-qaP'', ''--drv-path''] None
                  (Exit 0 out)])) \<and>
         (\<forall>other. packages_for_sha env sha (snd (packages_for_sha env other s1))
                    = (Inr pkgs, snd (packages_for_sha env other s1))) \<and>
         (\<forall>attrs other. packages_for_sha env sha (snd (build_sha env attrs other s1))
                    = (Inr pkgs, snd (build_sha env attrs other s1)))"
proof -
  have stored: "cache s1 sha = Some pkgs"
    using assms by (rule packages_for_sha_stores)
  have again: "packages_for_sha env sha s1 = (Inr pkgs, s1)"
    using stored by (rule packages_for_sha_hit)
  have later: "packages_for_sha env sha (snd (packages_for_sha env other s1))
                 = (Inr pkgs, snd (packages_for_sha env other s1))" for other
    using stored by (intro packages_for_sha_hit cache_packages_for_sha)
  have built: "packages_for_sha env sha (snd (build_sha env attrs other s1))
                 = (Inr pkgs, snd (build_sha env attrs other s1))" for attrs other
    using stored by (intro packages_for_sha_hit) (simp add: cache_build_sha)
  have first: "\<exists>pre t out. trace s1 = pre @
               [Call (checkout sha) (Some (nixpkgs_dir env)) (Exit 0 t),
                Call [''nix-env'', ''-f'', nixpkgs_dir env, ''-qaP'', ''--drv-path''] None
                  (Exit 0 out)]"
    if miss: "cache s sha = None"
  proof -
    from assms miss obtain s' where
      body: "bind (get_nixpkgs env) (\<lambda>nixpkgs.
               bind (check_call env (checkout sha) (Some nixpkgs)) (\<lambda>_. packages env nixpkgs)) s
             = (Inr pkgs, s')"
      and s1: "s1 = s'\<lparr>cache := (cache s')(sha \<mapsto> pkgs)\<rparr>"
      by (auto simp: packages_for_sha_def cache_on_arguments_def split: prod.splits sum.splits)
    from body obtain n sa sb where
      g: "get_nixpkgs env s = (Inr n, sa)"
      and c: "check_call env (checkout sha) (Some n) sa = (Inr (), sb)"
      and p: "packages env n sb = (Inr pkgs, s')"
      by (auto simp: bind_Inr)
    from g have n: "n = nixpkgs_dir env" by (rule get_nixpkgs_Inr)
    from c p n s1 show ?thesis
      by (auto simp: packages_def bind_Inr ret_Inr check_call_Inr check_output_Inr)
  qed
  show ?thesis
    using again later built first by blast
qed

theorem packages_for_sha_cached_witness:
  "fst (packages_for_sha (demo_env all_succeed) ''M'' (demo_state ''X''))
     = Inr {''foo /nix/a'', ''bar /nix/b'', ''''} \<and>
   cache (demo_state ''X'') ''M'' = None \<and>
   packages_for_sha (demo_env all_succeed) ''M''
       (snd (packages_for_sha (demo_env all_succeed) ''M'' (demo_state ''X'')))
     = (Inr {''foo /nix/a'', ''bar /nix/b'', ''''},
        snd (packages_for_sha (demo_env all_succeed) ''M'' (demo_state ''X'')))"
proof -
  have first: "fst (packages_for_sha (demo_env all_succeed) ''M'' (demo_state ''X''))
     = Inr {''foo /nix/a'', ''bar /nix/b'', ''''}"
    by (simp add: program_defs prog_defs demo_defs split_on_def)
  then have run: "packages_for_sha (demo_env all_succeed) ''M'' (demo_state ''X'')
     = (Inr {''foo /nix/a'', ''bar /nix/b'', ''''},
        snd (packages_for_sha (demo_env all_succeed) ''M'' (demo_state ''X'')))"
    by (metis prod.collapse)
  have fresh: "cache (demo_state ''X'') ''M'' = None"
    by (simp add: demo_state_def)
  show ?thesis
    using packages_for_sha_cached [OF run] first fresh by simp
qed

section \<open>The builder\<close>

text \<open>
  C5: for every target path, build_in_path([], path) returns without an error, and the
  only thing it does is to emit the message "Nothing changed": the world is as before,
  so there is no build invocation and no output directory.
\<close>

theorem build_in_path_nothing:
  "build_in_path env [] path s = (Inr (), s\<lparr>trace := trace s @ [Echo ''Nothing changed'']\<rparr>)"
  by (simp add: build_in_path_def echo_def)

text \<open>
  C4, as amended: for every non-empty list of attribute names, when the build invocation
  exits with a status other than 0, build_in_path reports the failing command in red
  without raising, then reports the output directory and runs the listing. The failed
  build does not reach the exit status: what build_in_path returns, and the exit status
  of a run that ends with it, are those of the listing step, success when the listing
  exits with status 0.
\<close>

theorem build_in_path_build_fails:
  assumes "attrs \<noteq> []"
    and "make_temp_dir env (world s) ''nox-review-'' = (dir, w1)"
    and "run_process env w1 (build_command attrs (resolve_path env (world s) path)) (Some dir)
           = (Exit rc out, w2)"
    and "rc \<noteq> 0"
    and "run_process env w2 (list_command dir) None = (ls, w3)"
  shows "build_in_path env attrs path s =
     ((case checked (list_command dir) ls of Inl e \<Rightarrow> Inl e | Inr t \<Rightarrow> Inr ()),
      s\<lparr>world := w3,
        trace := trace s @
          [Mkdtemp ''nox-review-'' dir,
           Echo (''Building in '' @ style_bold dir @ '': '' @ style_bold (join_space attrs)),
           Call (build_command attrs (resolve_path env (world s) path)) (Some dir) (Exit rc out),
           Echo (failed_message (build_command attrs (resolve_path env (world s) path))),
           Echo (''Result in '' @ style_bold dir),
           Call (list_command dir) None ls]\<rparr>) \<and>
     exit_status (fst (build_in_path env attrs path s)) = exit_status (checked (list_command dir) ls)"
  using assms
  by (simp add: build_in_path_def prog_defs exit_status_def split: sum.splits)

theorem build_in_path_build_fails_witness:
  "fst (build_in_path (demo_env build_fails) [''hello''] ''.'' (demo_state ''H'')) = Inr () \<and>
   trace (snd (build_in_path (demo_env build_fails) [''hello''] ''.'' (demo_state ''H''))) =
     [Mkdtemp ''nox-review-'' ''/tmp/nox-review-1'',
      Echo (''Building in '' @ style_bold ''/tmp/nox-review-1'' @ '': '' @ style_bold ''hello''),
      Call [''nix-build'', ''-A'', ''hello'', ''.''] (Some ''/tmp/nox-review-1'') (Exit 1 []),
      Echo (style_red (''The invocation of \"nix-build -A hello .\" failed'')),
      Echo (''Result in '' @ style_bold ''/tmp/nox-review-1''),
      Call [''ls'', ''-l'', ''/tmp/nox-review-1''] None (Exit 0 [])]"
  using build_in_path_build_fails [of "[''hello'']" "demo_env build_fails" "demo_state ''H''"
      "''/tmp/nox-review-1''" "''H''" "''.''" 1 "[]" "''H''" "Exit 0 []" "''H''"]
  by (simp add: demo_defs build_command_def list_command_def failed_message_def checked_def)

text \<open>
  C4 as it is written fails: where the build exits with status 1 and the listing with
  status 0, build_in_path returns normally and the exit status is 0.
\<close>

theorem build_failure_exit_status_counterexample:
  "Call [''nix-build'', ''-A'', ''hello'', ''.''] (Some ''/tmp/nox-review-1'') (Exit 1 [])
     \<in> set (trace (snd (build_in_path (demo_env build_fails) [''hello''] ''.'' (demo_state ''H'')))) \<and>
   exit_status (fst (build_in_path (demo_env build_fails) [''hello''] ''.'' (demo_state ''H''))) = 0"
  by (simp add: exit_status_def program_defs prog_defs demo_defs)

section \<open>The mirror\<close>

text \<open>
  C9, as amended: in the mirror setup, whenever the working directory looks like a
  repository, the command that removes the temporary remote runs right after the command
  that adds it and fetches from it, however that one ended (status 0, another status, or
  not started), and every error of the adding command is swallowed. An error of the
  removing command is not swallowed: the setup ends with it. When the removing command
  exits with status 0 the setup goes on with the fetches from upstream.
\<close>

theorem get_nixpkgs_temporary_remote:
  assumes "init_nixpkgs env s = (Inr nixpkgs, s1)"
    and "path_exists env (world s1) (current_dir env (world s1) @ ''/.git'')"
    and "run_process env (world s1) (add_local (current_dir env (world s1))) (Some nixpkgs)
           = (added, w1)"
    and "run_process env w1 remove_local (Some nixpkgs) = (removed, w2)"
  shows "get_nixpkgs env s =
     (let s2 = s1\<lparr>world := w2,
                   trace := trace s1 @
                     [Call (add_local (current_dir env (world s1))) (Some nixpkgs) added,
                      Call remove_local (Some nixpkgs) removed]\<rparr>
      in case checked remove_local removed of
           Inl e \<Rightarrow> (Inl e, s2)
         | Inr t \<Rightarrow> fetch_origin env nixpkgs s2)"
  using assms
  by (simp add: get_nixpkgs_def fetch_local_def prog_defs Let_def
      split: sum.splits prod.splits)

theorem get_nixpkgs_temporary_remote_witness:
  "fst (get_nixpkgs (demo_env add_fails) (demo_state ''X'')) = Inr ''/home/u/.nox/nixpkgs'' \<and>
   trace (snd (get_nixpkgs (demo_env add_fails) (demo_state ''X''))) =
     [Call [''git'', ''remote'', ''add'', ''local'', ''-f'', ''/src/nixpkgs'']
        (Some ''/home/u/.nox/nixpkgs'') (Exit 128 []),
      Call [''git'', ''remote'', ''remove'', ''local''] (Some ''/home/u/.nox/nixpkgs'') (Exit 0 []),
      Call [''git'', ''fetch'', ''origin'', ''master''] (Some ''/home/u/.nox/nixpkgs'') (Exit 0 []),
      Call [''git'', ''fetch'', ''origin'', ''+refs/pull/*/head:refs/remotes/origin/pr/*'']
        (Some ''/home/u/.nox/nixpkgs'') (Exit 0 [])]"
proof -
  have init: "init_nixpkgs (demo_env add_fails) (demo_state ''X'')
                = (Inr ''/home/u/.nox/nixpkgs'', demo_state ''X'')"
    by (simp add: init_nixpkgs_def nixpkgs_dir_def prog_defs demo_env_def)
  have repo: "path_exists (demo_env add_fails) (world (demo_state ''X''))
                (current_dir (demo_env add_fails) (world (demo_state ''X'')) @ ''/.git'')"
    by (simp add: demo_env_def)
  have add: "run_process (demo_env add_fails) (world (demo_state ''X''))
               (add_local (current_dir (demo_env add_fails) (world (demo_state ''X''))))
               (Some ''/home/u/.nox/nixpkgs'') = (Exit 128 [], ''X'')"
    by (simp add: demo_defs add_local_def)
  have remove: "run_process (demo_env add_fails) ''X'' remove_local (Some ''/home/u/.nox/nixpkgs'')
                  = (Exit 0 [], ''X'')"
    by (simp add: demo_defs remove_local_def)
  show ?thesis
    using get_nixpkgs_temporary_remote [OF init repo add remove]
    by (simp add: fetch_origin_def add_local_def remove_local_def prog_defs demo_defs)
qed

text \<open>
  C9 as it is written fails: in a repository, where git's remote commands exit with
  status 2, the error of the removing command leaves the mirror setup.
\<close>

theorem get_nixpkgs_remove_fails_counterexample:
  "path_exists (demo_env remote_fails) ''X'' (current_dir (demo_env remote_fails) ''X'' @ ''/.git'') \<and>
   fst (get_nixpkgs (demo_env remote_fails) (demo_state ''X''))
     = Inl (CalledProcessError 2 [''git'', ''remote'', ''remove'', ''local''])"
  by (simp add: program_defs prog_defs demo_defs)

section \<open>The review of a pull request\<close>

lemma sym_difference_commute: "sym_difference a b = sym_difference b a"
  by (auto simp: sym_difference_def)

lemma differences_commute: "differences a b = differences b a"
  by (simp add: differences_def sym_difference_commute [of a b])

text \<open>
  C2: every review of a pull request that runs to its end has fetched the payload with
  head H and base B, has asked git for the merge base of H and B in the mirror and read
  M from its output, has looked up the attribute sets of H and of M with the cached
  lister (B is not looked up), has taken the differences of the set of M and the set of
  H, and has then, in the mirror, checked out H and built the names of those differences.
  The two sets are the ones the cache holds for H and M at the end.
\<close>

theorem review_pr_diffs_root_and_head:
  assumes "review_pr env pr s = (Inr u, s')"
  shows "\<exists>payload w0 H B s1 out s2 of_head s3 of_root s4 names s5 s6.
     http_get env (world s) (pr_url pr) = (Some payload, w0) \<and>
     head_sha payload = Some H \<and> base_sha payload = Some B \<and>
     check_output env (merge_base H B) (Some (nixpkgs_dir env)) s1 = (Inr out, s2) \<and>
     packages_for_sha env H s2 = (Inr of_head, s3) \<and>
     packages_for_sha env (strip out) s3 = (Inr of_root, s4) \<and>
     differences of_root of_head = Inr names \<and>
     get_nixpkgs env s4 = (Inr (nixpkgs_dir env), s5) \<and>
     check_call env (checkout H) (Some (nixpkgs_dir env)) s5 = (Inr (), s6) \<and>
     build_in_path env (set_order env names) (nixpkgs_dir env) s6 = (Inr u, s') \<and>
     cache s' H = Some of_head \<and> cache s' (strip out) = Some of_root"
proof -
  from assms obtain payload sa ttl H B n s1 out s2 of_head s3 of_root s4 names where
    j: "get_json env (pr_url pr) s = (Inr payload, sa)"
    and h: "head_sha payload = Some H" and b: "base_sha payload = Some B"
    and g: "get_nixpkgs env (sa\<lparr>trace := trace sa @
              [Echo (''Reviewing PR '' @ style_bold (str_int pr) @ '' : '' @ style_bold ttl)]\<rparr>)
            = (Inr n, s1)"
    and m: "check_output env (merge_base H B) (Some n) s1 = (Inr out, s2)"
    and ph: "packages_for_sha env H s2 = (Inr of_head, s3)"
    and pm: "packages_for_sha env (strip out) s3 = (Inr of_root, s4)"
    and d: "differences of_head of_root = Inr names"
    and build: "build_sha env (set_order env names) H s4 = (Inr u, s')"
    unfolding review_pr_def
    by (auto simp: bind_Inr item_Inr lift_Inr echo_def)
  from g have n: "n = nixpkgs_dir env" by (rule get_nixpkgs_Inr)
  from build obtain n' s5 s6 where
    g': "get_nixpkgs env s4 = (Inr n', s5)"
    and c: "check_call env (checkout H) (Some n') s5 = (Inr (), s6)"
    and bp: "build_in_path env (set_order env names) n' s6 = (Inr u, s')"
    unfolding build_sha_def by (auto simp: bind_Inr)
  from g' have n': "n' = nixpkgs_dir env" by (rule get_nixpkgs_Inr)
  from j obtain w0 where w0: "http_get env (world s) (pr_url pr) = (Some payload, w0)"
    by (auto simp: get_json_Inr)
  from d have d': "differences of_root of_head = Inr names"
    by (simp add: differences_commute)
  have "cache s3 H = Some of_head"
    using ph by (rule packages_for_sha_stores)
  then have "cache (snd (packages_for_sha env (strip out) s3)) H = Some of_head"
    by (rule cache_packages_for_sha)
  with pm have head4: "cache s4 H = Some of_head" by simp
  have root4: "cache s4 (strip out) = Some of_root"
    using pm by (rule packages_for_sha_stores)
  have "cache (snd (build_sha env (set_order env names) H s4)) = cache s4"
    by (rule cache_build_sha)
  with build have "cache s' = cache s4" by simp
  with head4 root4 have kept: "cache s' H = Some of_head" "cache s' (strip out) = Some of_root"
    by simp_all
  show ?thesis
    using w0 h b m ph pm d' g' c bp n n' kept by blast
qed

theorem review_pr_diffs_root_and_head_witness:
  "fst (review_pr (demo_env all_succeed) 123 (demo_state ''X'')) = Inr () \<and>
   Call [''nix-build'', ''-A'', ''bar'', ''-A'', ''baz'', ''/home/u/.nox/nixpkgs'']
        (Some ''/tmp/nox-review-1'') (Exit 0 [])
     \<in> set (trace (snd (review_pr (demo_env all_succeed) 123 (demo_state ''X'')))) \<and>
   (\<exists>s1 out s2 of_head s3 of_root s4 names s5 s6.
     check_output (demo_env all_succeed) (merge_base ''H'' ''B'') (Some ''/home/u/.nox/nixpkgs'') s1
       = (Inr out, s2) \<and>
     packages_for_sha (demo_env all_succeed) ''H'' s2 = (Inr of_head, s3) \<and>
     packages_for_sha (demo_env all_succeed) (strip out) s3 = (Inr of_root, s4) \<and>
     differences of_root of_head = Inr names \<and>
     get_nixpkgs (demo_env all_succeed) s4 = (Inr ''/home/u/.nox/nixpkgs'', s5) \<and>
     check_call (demo_env all_succeed) (checkout ''H'') (Some ''/home/u/.nox/nixpkgs'') s5
       = (Inr (), s6) \<and>
     build_in_path (demo_env all_succeed) (set_order (demo_env all_succeed) names)
         ''/home/u/.nox/nixpkgs'' s6
       = (Inr (), snd (review_pr (demo_env all_succeed) 123 (demo_state ''X''))))"
proof -
  have ok: "fst (review_pr (demo_env all_succeed) 123 (demo_state ''X'')) = Inr ()"
    by (simp add: program_defs prog_defs demo_defs split_on_def differences_def
        sym_difference_def split_ws_def is_space_def strip_def str_int_def str_nat.simps
        insert_Diff_if)
  have built: "Call [''nix-build'', ''-A'', ''bar'', ''-A'', ''baz'', ''/home/u/.nox/nixpkgs'']
        (Some ''/tmp/nox-review-1'') (Exit 0 [])
     \<in> set (trace (snd (review_pr (demo_env all_succeed) 123 (demo_state ''X''))))"
    by (simp add: program_defs prog_defs demo_defs split_on_def differences_def
        sym_difference_def split_ws_def is_space_def strip_def str_int_def str_nat.simps
        insert_Diff_if)
  from ok have run: "review_pr (demo_env all_succeed) 123 (demo_state ''X'')
      = (Inr (), snd (review_pr (demo_env all_succeed) 123 (demo_state ''X'')))"
    by (metis prod.collapse)
  have payload: "http_get (demo_env all_succeed) w url = (Some p, w') \<longleftrightarrow> p = demo_payload \<and> w' = w"
    for w url p w'
    by (auto simp: demo_env_def)
  have dir: "nixpkgs_dir (demo_env all_succeed) = ''/home/u/.nox/nixpkgs''"
    by (simp add: nixpkgs_dir_def demo_env_def)
  show ?thesis
    using review_pr_diffs_root_and_head [OF run] ok built
    by (clarsimp simp: payload dir demo_payload_def) blast
qed

end
